theory Spec2Isabelle
  imports Main
begin

section \<open>The spectral library of \<open>specmatchemp/library.py\<close>\<close>

text \<open>
  The module wraps a pandas parameter table, a wavelength axis and a three-axis numpy
  array of spectra, with a constructor, an append operation, the container protocol and
  a save/load pair on two HDF5 files. The embedding keeps the names of the source.
  Flux values and table cells are only stored and moved, so their type is a parameter
  (\<open>'f\<close>); wavelengths are only compared with \<open><\<close>, so their type is any type with
  an order relation (\<open>'w :: ord\<close>, nothing assumed about it); header values are a
  parameter \<open>'h\<close>, and the value of \<open>str(datetime.date.today())\<close> is passed in as
  \<open>today\<close>.
\<close>

subsection \<open>Errors\<close>

text \<open>
  The message of a failed \<open>assert\<close>, by its format string:
  \<^item> \<open>Required_in_table c\<close>: "c required in parameter table";
  \<^item> \<open>Lengths_not_equal\<close>: "Error: Length of parameter table and library spectra are
    not equal.";
  \<^item> \<open>Index_out_of_bounds i\<close>: "Error: Index i is out of bounds in library_spectra";
  \<^item> \<open>Should_have_shape n w\<close>: "Error: library_spectra should have shape (n, 2, w";
  \<^item> \<open>Required_in_specification c\<close>: "c required in parameter specification.";
  \<^item> \<open>Spectrum_wrong_length\<close>: "Error: spectrum is not the same length as library
    wavelength array".
\<close>

datatype message =
    Required_in_table string
  | Lengths_not_equal
  | Index_out_of_bounds int
  | Should_have_shape nat nat
  | Required_in_specification string
  | Spectrum_wrong_length

datatype error =
    AssertionError message
  | KeyError
  | IndexError
  | NameError string
  | AttributeError string
  | ValueError
  | TypeError
  | ZeroDivisionError
  | OSError

subsection \<open>Parameter table, tensor, library\<close>

definition LIB_COLS :: "string list" where
  "LIB_COLS = [''lib_index'', ''cps_name'', ''obs'', ''lib_obs'', ''Teff'', ''u_Teff'',
     ''radius'', ''u_radius'', ''logg'', ''u_logg'', ''feh'', ''u_feh'', ''mass'', ''u_mass'',
     ''age'', ''u_age'', ''vsini'', ''source'', ''source_name'']"

datatype 'f cell = IntV int | FloatV 'f | StrV string | NaN

text \<open>
  A \<open>pd.DataFrame\<close>: its column names, and its rows in order, each with its index label
  (what \<open>iterrows\<close> yields). A cell a row does not hold is the NaN pandas fills in.
\<close>

type_synonym 'f series = "string \<rightharpoonup> 'f cell"

record 'f dataframe =
  columns :: "string list"
  rows :: "(int \<times> 'f series) list"

definition index :: "'f dataframe \<Rightarrow> int list" where
  "index df = map fst (rows df)"

text \<open>
  A three-axis \<open>np.ndarray\<close> of shape \<open>(length slabs, dim1, dim2)\<close>, with the byte size
  of one element. The sizes of axes 1 and 2 are fields of their own, since an array with
  no slab still has them (\<open>np.empty((0, 2, W))\<close>).
\<close>

record 'f ndarray3 =
  dim1 :: nat
  dim2 :: nat
  itemsize :: nat
  slabs :: "'f list list list"

record ('w, 'f, 'h) library =
  library_params :: "'f dataframe"
  wav :: "'w list"
  library_spectra :: "'f ndarray3"
  header :: "string \<rightharpoonup> 'h"
  wavlim :: "('w \<times> 'w) option"

subsection \<open>Construction\<close>

text \<open>The loop \<open>for col in LIB_COLS: assert col in table.columns, msg(col)\<close>.\<close>

fun require_cols :: "(string \<Rightarrow> message) \<Rightarrow> string list \<Rightarrow> string list \<Rightarrow> error option" where
  "require_cols msg cols [] = None"
| "require_cols msg cols (c # cs) =
     (if c \<in> set cols then require_cols msg cols cs else Some (AssertionError (msg c)))"

text \<open>The loop \<open>for i, row in library_params.iterrows(): assert i < num_spec\<close>.\<close>

fun check_indices :: "nat \<Rightarrow> (int \<times> 'r) list \<Rightarrow> error option" where
  "check_indices num_spec [] = None"
| "check_indices num_spec ((i, row) # rs) =
     (if i < int num_spec then check_indices num_spec rs
      else Some (AssertionError (Index_out_of_bounds i)))"

text \<open>The library of the empty path (\<open>np.empty\<close> makes 8-byte floats).\<close>

definition empty_Library :: "'h \<Rightarrow> 'w list \<Rightarrow> ('w \<times> 'w) option \<Rightarrow> ('w, 'f, 'h) library" where
  "empty_Library today wv wl =
     \<lparr>library_params = \<lparr>columns = LIB_COLS, rows = []\<rparr>,
      wav = wv,
      library_spectra = \<lparr>dim1 = 2, dim2 = length wv, itemsize = 8, slabs = []\<rparr>,
      header = [''date_created'' \<mapsto> today],
      wavlim = wl\<rparr>"

text \<open>\<open>Library.__init__\<close>; \<open>None\<close> is Python's \<open>None\<close> for the two optional arguments.\<close>

definition Library_init ::
  "'h \<Rightarrow> 'w list \<Rightarrow> 'f ndarray3 option \<Rightarrow> 'f dataframe option \<Rightarrow> (string \<rightharpoonup> 'h) \<Rightarrow>
   ('w \<times> 'w) option \<Rightarrow> error + ('w, 'f, 'h) library" where
  "Library_init today wv spectra params hdr wl =
     (case spectra of
        None \<Rightarrow> Inr (empty_Library today wv wl)
      | Some sp \<Rightarrow>
         (case params of
            None \<Rightarrow> Inr (empty_Library today wv wl)
          | Some ps \<Rightarrow>
             (case require_cols Required_in_table (columns ps) LIB_COLS of
                Some e \<Rightarrow> Inl e
              | None \<Rightarrow>
                 (let num_spec = length (slabs sp) in
                  if length (rows ps) \<noteq> num_spec then Inl (AssertionError Lengths_not_equal)
                  else
                    (case check_indices num_spec (rows ps) of
                       Some e \<Rightarrow> Inl e
                     | None \<Rightarrow>
                        if dim1 sp = 2 \<and> dim2 sp = length wv
                        then Inr \<lparr>library_params = ps, wav = wv, library_spectra = sp,
                                  header = hdr(''date_created'' \<mapsto> today), wavlim = wl\<rparr>
                        else Inl (AssertionError (Should_have_shape num_spec (length wv))))))))"

definition Library_len :: "('w, 'f, 'h) library \<Rightarrow> nat" where
  "Library_len lib = length (slabs (library_spectra lib))"

subsection \<open>Insertion\<close>

text \<open>\<open>params.lib_index = v\<close> on a frame that has the column: every row gets the value.\<close>

definition set_lib_index :: "int \<Rightarrow> 'f dataframe \<Rightarrow> 'f dataframe" where
  "set_lib_index v df = df\<lparr>rows := map (\<lambda>(i, r). (i, r(''lib_index'' \<mapsto> IntV v))) (rows df)\<rparr>"

text \<open>
  \<open>pd.concat((a, b), ignore_index=True)\<close>: the rows of \<open>a\<close>, then those of \<open>b\<close>,
  relabelled \<open>0, 1, ...\<close>; the columns of \<open>a\<close>, then those only \<open>b\<close> has.
\<close>

definition concat_ignore_index :: "'f dataframe \<Rightarrow> 'f dataframe \<Rightarrow> 'f dataframe" where
  "concat_ignore_index a b =
     (let rs = map snd (rows a) @ map snd (rows b) in
      \<lparr>columns = columns a @ filter (\<lambda>c. c \<notin> set (columns a)) (columns b),
       rows = zip (map int [0..<length rs]) rs\<rparr>)"

text \<open>
  \<open>np.vstack((a, [[spectrum, u_spectrum]]))\<close>: the pair is an array of shape
  \<open>(1, 2, L)\<close> when both have length \<open>L\<close> and is ragged otherwise; numpy raises
  ValueError for a ragged operand and for operands whose trailing axes differ.
\<close>

definition vstack :: "'f ndarray3 \<Rightarrow> 'f list \<Rightarrow> 'f list \<Rightarrow> error + 'f ndarray3" where
  "vstack a spectrum u_spectrum =
     (if length spectrum = length u_spectrum \<and> dim1 a = 2 \<and> dim2 a = length spectrum
      then Inr (a\<lparr>slabs := slabs a @ [[spectrum, u_spectrum]]\<rparr>)
      else Inl ValueError)"

text \<open>
  \<open>Library.insert\<close>. The source reads \<open>params.columns\<close>, so \<open>params\<close> is a frame;
  a single row is a frame of one row. The result is the outcome and the library as the
  call leaves it, also when it raises: the table is rebound before the tensor.
\<close>

definition Library_insert ::
  "('w, 'f, 'h) library \<Rightarrow> 'f dataframe \<Rightarrow> 'f list \<Rightarrow> 'f list \<Rightarrow>
   (error + unit) \<times> ('w, 'f, 'h) library" where
  "Library_insert lib params spectrum u_spectrum =
     (if length (rows (library_params lib)) \<noteq> length (slabs (library_spectra lib))
      then (Inl (AssertionError Lengths_not_equal), lib)
      else
        (case require_cols Required_in_specification (columns params) LIB_COLS of
           Some e \<Rightarrow> (Inl e, lib)
         | None \<Rightarrow>
            if length spectrum \<noteq> length (wav lib)
            then (Inl (AssertionError Spectrum_wrong_length), lib)
            else
              (let params' = set_lib_index (int (length (slabs (library_spectra lib)))) params;
                   lib1 = lib\<lparr>library_params :=
                                concat_ignore_index (library_params lib) params'\<rparr>
               in case vstack (library_spectra lib1) spectrum u_spectrum of
                    Inl e \<Rightarrow> (Inl e, lib1)
                  | Inr t \<Rightarrow> (Inr (), lib1\<lparr>library_spectra := t\<rparr>))))"

text \<open>Inserting a sequence of rows one after the other, stopping at the first error.\<close>

fun insert_all ::
  "('w, 'f, 'h) library \<Rightarrow> ('f dataframe \<times> 'f list \<times> 'f list) list \<Rightarrow>
   (error + unit) \<times> ('w, 'f, 'h) library" where
  "insert_all lib [] = (Inr (), lib)"
| "insert_all lib ((params, spectrum, u_spectrum) # xs) =
     (case Library_insert lib params spectrum u_spectrum of
        (Inl e, lib') \<Rightarrow> (Inl e, lib')
      | (Inr u, lib') \<Rightarrow> insert_all lib' xs)"

subsection \<open>Container protocol\<close>

definition Library_contains :: "('w, 'f, 'h) library \<Rightarrow> int \<Rightarrow> bool" where
  "Library_contains lib i = (i \<in> set (index (library_params lib)))"

text \<open>
  \<open>Library.__getitem__\<close>. After the membership test the source evaluates
  \<open>self.library_params.loc[index]\<close> and then \<open>self.library_spectra.loc[index]\<close>;
  the tensor is an \<open>np.ndarray\<close>, which has no attribute \<open>loc\<close>.
\<close>

definition Library_getitem ::
  "('w, 'f, 'h) library \<Rightarrow> int \<Rightarrow> error + ('f series \<times> 'f list list)" where
  "Library_getitem lib i =
     (if \<not> Library_contains lib i then Inl KeyError
      else Inl (AttributeError ''loc''))"

subsection \<open>Files\<close>

text \<open>
  An HDF5 file holds the table node \<open>library_params\<close> (written by pandas), root
  attributes and the datasets \<open>wav\<close> and \<open>library_spectra\<close> (written by h5py), each
  present or not. Both writers open their file in mode \<open>w\<close>, which truncates it.
\<close>

record ('w, 'f, 'h) hdf =
  table :: "'f dataframe option"
  attrs :: "string \<rightharpoonup> 'h"
  wav_ds :: "'w list option"
  spectra_ds :: "'f ndarray3 option"

definition empty_hdf :: "('w, 'f, 'h) hdf" where
  "empty_hdf = \<lparr>table = None, attrs = Map.empty, wav_ds = None, spectra_ds = None\<rparr>"

type_synonym ('w, 'f, 'h) files = "string \<rightharpoonup> ('w, 'f, 'h) hdf"

text \<open>
  \<open>f.create_dataset(name, data=a, chunks=(c0, c1, c2), ...)\<close>: h5py raises ValueError
  for a chunk shape that exceeds the data shape in some dimension, and HDF5 refuses a
  chunk dimension of zero.
\<close>

definition create_dataset :: "'f ndarray3 \<Rightarrow> nat \<times> nat \<times> nat \<Rightarrow> error + 'f ndarray3" where
  "create_dataset a chunks =
     (case chunks of (c0, c1, c2) \<Rightarrow>
        if c0 > length (slabs a) \<or> c1 > dim1 a \<or> c2 > dim2 a \<or> c0 = 0 \<or> c1 = 0 \<or> c2 = 0
        then Inl ValueError else Inr a)"

text \<open>\<open>DataFrame.empty\<close>: one of the two axes has length zero.\<close>

definition empty_frame :: "'f dataframe \<Rightarrow> bool" where
  "empty_frame df = (rows df = [] \<or> columns df = [])"

text \<open>
  \<open>df.to_hdf(paramfile, 'library_params', format='table', mode='w')\<close>, by the node it
  leaves in the new file. For an empty frame pandas returns without storing a node. For
  any other frame it stores the frame, unless a column of dtype object holds a value that
  is not a string, for which it raises TypeError. The dtypes of the columns are not part
  of \<open>dataframe\<close>, so the verdict of pandas on the columns of a frame is the argument
  \<open>serializable\<close>.
\<close>

definition pd_to_hdf ::
  "('f dataframe \<Rightarrow> bool) \<Rightarrow> 'f dataframe \<Rightarrow> error + 'f dataframe option" where
  "pd_to_hdf serializable df =
     (if empty_frame df then Inr None
      else if serializable df then Inr (Some df)
      else Inl TypeError)"

text \<open>
  \<open>Library.to_hdf\<close>, with the files as it leaves them. When the pandas write raises,
  the spectrum file is not touched. \<open>self.library_spectra[:,:,0]\<close> raises IndexError on
  an array whose last axis is empty; its \<open>nbytes\<close> is the number of its elements times
  the item size; \<open>100e3 / nbytes\<close> raises ZeroDivisionError for \<open>nbytes = 0\<close>, and
  \<open>int\<close> of the quotient is the integer quotient.
\<close>

definition Library_to_hdf ::
  "('f dataframe \<Rightarrow> bool) \<Rightarrow> ('w, 'f, 'h) library \<Rightarrow> string \<Rightarrow> string \<Rightarrow>
   ('w, 'f, 'h) files \<Rightarrow> (error + unit) \<times> ('w, 'f, 'h) files" where
  "Library_to_hdf serializable lib paramfile specfile fs =
     (case pd_to_hdf serializable (library_params lib) of
        Inl e \<Rightarrow> (Inl e, fs(paramfile \<mapsto> empty_hdf))
      | Inr node \<Rightarrow>
         (let fs1 = fs(paramfile \<mapsto> empty_hdf\<lparr>table := node\<rparr>);
              f = empty_hdf\<lparr>attrs := header lib, wav_ds := Some (wav lib)\<rparr>;
              fs2 = fs1(specfile \<mapsto> f);
              a = library_spectra lib;
              chunk_row = length (slabs a);
              chunk_depth = 2
          in if dim2 a = 0 then (Inl IndexError, fs2)
             else
               (let nbytes = length (slabs a) * dim1 a * itemsize a in
                if nbytes = 0 then (Inl ZeroDivisionError, fs2)
                else
                  (let chunk_col = 100000 div nbytes in
                   case create_dataset a (chunk_row, chunk_depth, chunk_col) of
                     Inl e \<Rightarrow> (Inl e, fs2)
                   | Inr ds \<Rightarrow> (Inr (), fs2(specfile \<mapsto> f\<lparr>spectra_ds := Some ds\<rparr>))))))"

text \<open>\<open>np.where(mask)\<close> on a one-axis array: the positions where the mask holds.\<close>

definition np_where :: "('a \<Rightarrow> bool) \<Rightarrow> 'a list \<Rightarrow> nat list" where
  "np_where P xs = filter (\<lambda>i. P (xs ! i)) [0..<length xs]"

text \<open>
  \<open>read_hdf\<close>. In the branch with limits, \<open>idxwav[0]\<close> raises IndexError when no sample
  is inside; otherwise the next statement reads \<open>h5['library_spectra']\<close>, and no name
  \<open>h5\<close> is bound in the function, the module (\<open>datetime\<close>, \<open>np\<close>, \<open>pd\<close>,
  \<open>h5py\<close>, \<open>LIB_COLS\<close>, \<open>FLOAT_TOL\<close>, \<open>Library\<close>, \<open>read_hdf\<close>) or the builtins.
\<close>

definition read_hdf ::
  "'h \<Rightarrow> ('w::ord, 'f, 'h) files \<Rightarrow> string \<Rightarrow> string \<Rightarrow> ('w \<times> 'w) option \<Rightarrow>
   error + ('w, 'f, 'h) library" where
  "read_hdf today fs paramfile specfile wl =
     (case fs paramfile of
        None \<Rightarrow> Inl OSError
      | Some pf \<Rightarrow>
         (case table pf of
            None \<Rightarrow> Inl KeyError
          | Some params \<Rightarrow>
             (case fs specfile of
                None \<Rightarrow> Inl OSError
              | Some f \<Rightarrow>
                 (case wav_ds f of
                    None \<Rightarrow> Inl KeyError
                  | Some wv \<Rightarrow>
                     (case wl of
                        None \<Rightarrow>
                         (case spectra_ds f of
                            None \<Rightarrow> Inl KeyError
                          | Some sp \<Rightarrow>
                             Library_init today wv (Some sp) (Some params) (attrs f) wl)
                      | Some (lo, hi) \<Rightarrow>
                         (let idxwav = np_where (\<lambda>v. v > lo \<and> v < hi) wv in
                          if idxwav = [] then Inl IndexError
                          else
                            (let idxmin = hd idxwav;
                                 idxmax = last idxwav + 1
                             in Inl (NameError ''h5''))))))))"

subsection \<open>An example library\<close>

text \<open>
  \<open>n\<close> stars on the axis \<open>wv\<close>, each with flux 1 and uncertainty 0 at every sample
  and NaN in every cell of its row. In the examples the verdict of pandas is given as
  \<open>\<lambda>df. True\<close>: it stores such a table.
\<close>

definition stars :: "nat \<Rightarrow> int list \<Rightarrow> (int, int, string) library" where
  "stars n wv =
     \<lparr>library_params = \<lparr>columns = LIB_COLS, rows = map (\<lambda>i. (int i, Map.empty)) [0..<n]\<rparr>,
      wav = wv,
      library_spectra = \<lparr>dim1 = 2, dim2 = length wv, itemsize = 8,
                         slabs = replicate n [map (\<lambda>v. 1) wv, map (\<lambda>v. 0) wv]\<rparr>,
      header = [''date_created'' \<mapsto> ''2016-07-01''],
      wavlim = None\<rparr>"

section \<open>Properties\<close>

subsection \<open>The two validation loops\<close>

lemma require_cols_find:
  "require_cols msg cols cs =
     map_option (\<lambda>c. AssertionError (msg c)) (find (\<lambda>c. c \<notin> set cols) cs)"
  by (induction cs) auto

lemma require_cols_None: "(require_cols msg cols cs = None) = (set cs \<subseteq> set cols)"
  by (induction cs) auto

lemma check_indices_find:
  "check_indices n rs =
     map_option (\<lambda>i. AssertionError (Index_out_of_bounds i))
       (find (\<lambda>i. \<not> i < int n) (map fst rs))"
  by (induction n rs rule: check_indices.induct) auto

lemma check_indices_None: "(check_indices n rs = None) = (\<forall>i \<in> set (map fst rs). i < int n)"
  by (induction n rs rule: check_indices.induct) auto

lemma require_cols_subset: "set cs \<subseteq> set cols \<Longrightarrow> require_cols msg cols cs = None"
  by (simp add: require_cols_None)

subsection \<open>Construction\<close>

text \<open>
  C4. For an axis, a parameter table and a tensor that satisfy invariants 1 to 4 (the
  table has all 19 required fields, table and tensor have the same length \<open>N\<close>, every
  index label of the table lies in \<open>[0, N)\<close>, the tensor has shape \<open>(N, 2, W)\<close> with
  \<open>W\<close> the axis length), full-path construction succeeds, the length of the library is
  \<open>N\<close>, and table, axis and tensor are stored as given.
\<close>

theorem init_valid_succeeds:
  assumes "set LIB_COLS \<subseteq> set (columns ps)"
    and "length (rows ps) = length (slabs sp)"
    and "\<forall>i \<in> set (index ps). 0 \<le> i \<and> i < int (length (slabs sp))"
    and "dim1 sp = 2" and "dim2 sp = length wv"
  shows "\<exists>lib. Library_init today wv (Some sp) (Some ps) hdr wl = Inr lib
           \<and> Library_len lib = length (slabs sp)
           \<and> library_params lib = ps \<and> wav lib = wv \<and> library_spectra lib = sp"
proof -
  have c: "require_cols Required_in_table (columns ps) LIB_COLS = None"
    using assms(1) by (simp add: require_cols_None)
  have i: "check_indices (length (slabs sp)) (rows ps) = None"
    using assms(3) by (simp add: check_indices_None index_def)
  show ?thesis
    using c i assms(2,4,5) by (simp add: Library_init_def Library_len_def)
qed

theorem init_valid_succeeds_witness:
  "set LIB_COLS \<subseteq> set (columns \<lparr>columns = LIB_COLS, rows = [(0, Map.empty)]\<rparr>)
   \<and> (\<exists>lib. Library_init ''2016-07-01'' [5::int]
               (Some \<lparr>dim1 = 2, dim2 = 1, itemsize = 8, slabs = [[[1::int], [2]]]\<rparr>)
               (Some \<lparr>columns = LIB_COLS, rows = [(0, Map.empty)]\<rparr>) Map.empty None = Inr lib
            \<and> Library_len lib = 1
            \<and> library_params lib = \<lparr>columns = LIB_COLS, rows = [(0, Map.empty)]\<rparr>
            \<and> wav lib = [5]
            \<and> library_spectra lib = \<lparr>dim1 = 2, dim2 = 1, itemsize = 8, slabs = [[[1], [2]]]\<rparr>)"
  using init_valid_succeeds [of "\<lparr>columns = LIB_COLS, rows = [(0, Map.empty)]\<rparr>"
      "\<lparr>dim1 = 2, dim2 = 1, itemsize = 8, slabs = [[[1::int], [2]]]\<rparr>" "[5::int]"
      "''2016-07-01''" Map.empty None]
  by (simp add: index_def)

text \<open>
  C9. Construction always stamps the header with today's date: the empty path (spectra
  or table absent) succeeds with a header whose only entry is \<open>date_created\<close>, and the
  full path, when it succeeds, overwrites the \<open>date_created\<close> entry of the header it
  was given and keeps every other entry.
\<close>

theorem init_stamps_date:
  "(spectra = None \<or> params = None \<longrightarrow>
      (\<exists>lib. Library_init today wv spectra params hdr wl = Inr lib
         \<and> header lib ''date_created'' = Some today \<and> dom (header lib) = {''date_created''}))
   \<and> (Library_init today wv (Some sp) (Some ps) hdr wl = Inr lib' \<longrightarrow>
        header lib' = hdr(''date_created'' \<mapsto> today))"
  by (auto simp: Library_init_def empty_Library_def Let_def split: option.splits if_splits)

theorem init_stamps_date_witness:
  "(\<exists>lib. Library_init ''2016-07-01'' [5::int] (None :: int ndarray3 option) None
             [''date_created'' \<mapsto> ''1999-01-01''] None = Inr lib
          \<and> header lib ''date_created'' = Some ''2016-07-01''
          \<and> dom (header lib) = {''date_created''})
   \<and> (\<exists>lib'. Library_init ''2016-07-01'' [5::int]
        (Some \<lparr>dim1 = 2, dim2 = 1, itemsize = 8, slabs = [[[1::int], [2]]]\<rparr>)
        (Some \<lparr>columns = LIB_COLS, rows = [(0, Map.empty)]\<rparr>)
        [''date_created'' \<mapsto> ''1999-01-01'', ''telescope'' \<mapsto> ''Keck''] None = Inr lib'
      \<and> header lib' ''date_created'' = Some ''2016-07-01''
      \<and> header lib' ''telescope'' = Some ''Keck'')"
proof -
  let ?sp = "\<lparr>dim1 = 2, dim2 = 1, itemsize = 8, slabs = [[[1::int], [2]]]\<rparr>"
  let ?ps = "\<lparr>columns = LIB_COLS, rows = [(0, Map.empty :: int series)]\<rparr>"
  let ?hdr = "[''date_created'' \<mapsto> ''1999-01-01'', ''telescope'' \<mapsto> ''Keck'']"
  obtain lib' where full: "Library_init ''2016-07-01'' [5::int] (Some ?sp) (Some ?ps) ?hdr None
                             = Inr lib'"
    by (simp add: Library_init_def require_cols_subset)
  have "header lib' = ?hdr(''date_created'' \<mapsto> ''2016-07-01'')"
    by (rule init_stamps_date [THEN conjunct2, THEN mp, OF full])
  then have "header lib' ''date_created'' = Some ''2016-07-01''
             \<and> header lib' ''telescope'' = Some ''Keck''"
    by simp
  moreover have "\<exists>lib. Library_init ''2016-07-01'' [5::int] (None :: int ndarray3 option) None
             [''date_created'' \<mapsto> ''1999-01-01''] None = Inr lib
          \<and> header lib ''date_created'' = Some ''2016-07-01''
          \<and> dom (header lib) = {''date_created''}"
    by (rule init_stamps_date [THEN conjunct1, THEN mp]) simp
  ultimately show ?thesis using full by blast
qed

subsection \<open>Save and load\<close>

lemma np_where_Nil: "(np_where P xs = []) = (\<forall>x \<in> set xs. \<not> P x)"
  using nth_mem by (fastforce simp: np_where_def filter_empty_conv in_set_conv_nth)

lemma to_hdf_written:
  assumes "fst (Library_to_hdf serializable lib p s fs) = Inr ()" and "p \<noteq> s"
  shows "snd (Library_to_hdf serializable lib p s fs) p =
           Some (empty_hdf\<lparr>table := if empty_frame (library_params lib) then None
                                       else Some (library_params lib)\<rparr>)"
    and "snd (Library_to_hdf serializable lib p s fs) s =
           Some \<lparr>table = None, attrs = header lib, wav_ds = Some (wav lib),
                 spectra_ds = Some (library_spectra lib)\<rparr>"
  using assms
  by (auto simp: Library_to_hdf_def pd_to_hdf_def Let_def create_dataset_def empty_hdf_def
           split: if_splits sum.splits)

text \<open>
  A library that satisfies invariants 1 and 4 and whose save goes through has a table
  that is not empty: the save of a library without entries never goes through.
\<close>

lemma saved_table_not_empty:
  assumes "fst (Library_to_hdf serializable lib p s fs) = Inr ()"
    and "length (rows (library_params lib)) = length (slabs (library_spectra lib))"
    and "set LIB_COLS \<subseteq> set (columns (library_params lib))"
  shows "\<not> empty_frame (library_params lib)"
proof -
  have "length (slabs (library_spectra lib)) \<noteq> 0"
    using assms(1)
    by (auto simp: Library_to_hdf_def Let_def split: if_splits sum.splits)
  then have "rows (library_params lib) \<noteq> []"
    using assms(2) by auto
  moreover have "columns (library_params lib) \<noteq> []"
    using assms(3) by (auto simp: LIB_COLS_def)
  ultimately show ?thesis
    by (simp add: empty_frame_def)
qed

text \<open>When the save goes through: the chunk column count lies between 1 and W.\<close>

lemma to_hdf_succeeds:
  assumes "serializable (library_params lib)"
    and "0 < length (slabs (library_spectra lib))" and "dim1 (library_spectra lib) = 2"
    and "0 < itemsize (library_spectra lib)"
    and "0 < 100000 div (length (slabs (library_spectra lib)) * 2 * itemsize (library_spectra lib))"
    and "100000 div (length (slabs (library_spectra lib)) * 2 * itemsize (library_spectra lib))
           \<le> dim2 (library_spectra lib)"
  shows "fst (Library_to_hdf serializable lib p s fs) = Inr ()"
proof -
  have "0 < dim2 (library_spectra lib)"
    using assms(5,6) by linarith
  then show ?thesis
    using assms by (simp add: Library_to_hdf_def pd_to_hdf_def Let_def create_dataset_def)
qed

text \<open>
  C8. For a library with a table that is not empty (as the table of every library that
  satisfies invariants 1 and 4 and can be saved), saved to a parameter file and a
  spectrum file (two paths), whatever the verdict of pandas on its columns: loading with
  limits \<open>(lo, hi)\<close> such that no sample \<open>v\<close> of the axis has \<open>lo < v < hi\<close> fails
  with IndexError.
\<close>

theorem load_empty_window_IndexError:
  assumes "fst (Library_to_hdf serializable lib p s fs) = Inr ()" and "p \<noteq> s"
    and "\<not> empty_frame (library_params lib)"
    and "\<forall>v \<in> set (wav lib). \<not> (lo < v \<and> v < hi)"
  shows "read_hdf today (snd (Library_to_hdf serializable lib p s fs)) p s (Some (lo, hi))
           = Inl IndexError"
proof -
  have "np_where (\<lambda>v. lo < v \<and> v < hi) (wav lib) = []"
    using assms(4) by (simp add: np_where_Nil)
  then show ?thesis
    using to_hdf_written [OF assms(1,2)] assms(3)
    by (simp add: read_hdf_def empty_hdf_def)
qed

theorem load_empty_window_IndexError_witness:
  "fst (Library_to_hdf (\<lambda>df. True) (stars 6250 [10, 20, 30]) ''params.h5'' ''spectra.h5''
          Map.empty) = Inr ()
   \<and> \<not> empty_frame (library_params (stars 6250 [10, 20, 30]))
   \<and> read_hdf ''2016-07-02''
        (snd (Library_to_hdf (\<lambda>df. True) (stars 6250 [10, 20, 30]) ''params.h5''
                ''spectra.h5'' Map.empty))
        ''params.h5'' ''spectra.h5'' (Some (30, 40)) = Inl IndexError"
proof -
  have ok: "fst (Library_to_hdf (\<lambda>df. True) (stars 6250 [10, 20, 30]) ''params.h5''
                   ''spectra.h5'' Map.empty) = Inr ()"
    by (rule to_hdf_succeeds) (simp_all add: stars_def)
  have ne: "\<not> empty_frame (library_params (stars 6250 [10, 20, 30]))"
    by (simp add: empty_frame_def stars_def LIB_COLS_def)
  show ?thesis
    using ok ne load_empty_window_IndexError [OF ok _ ne, of 30 40 "''2016-07-02''"]
    by (simp add: stars_def)
qed

subsection \<open>Insertion\<close>

lemma insert_ok:
  assumes "length (rows (library_params lib)) = length (slabs (library_spectra lib))"
    and "dim1 (library_spectra lib) = 2" and "dim2 (library_spectra lib) = length (wav lib)"
    and "set LIB_COLS \<subseteq> set (columns params)"
    and "length spectrum = length (wav lib)" and "length u_spectrum = length (wav lib)"
  shows "Library_insert lib params spectrum u_spectrum =
           (Inr (),
            lib\<lparr>library_params :=
                  concat_ignore_index (library_params lib)
                    (set_lib_index (int (length (slabs (library_spectra lib)))) params),
                library_spectra :=
                  (library_spectra lib)\<lparr>slabs := slabs (library_spectra lib)
                                                    @ [[spectrum, u_spectrum]]\<rparr>\<rparr>)"
proof -
  have "require_cols Required_in_specification (columns params) LIB_COLS = None"
    using assms(4) by (simp add: require_cols_None)
  then show ?thesis
    using assms(1,2,3,5,6) by (simp add: Library_insert_def vstack_def Let_def)
qed

lemma concat_ignore_index_rows:
  "map snd (rows (concat_ignore_index a b)) = map snd (rows a) @ map snd (rows b)"
  "index (concat_ignore_index a b) = map int [0..<length (rows a) + length (rows b)]"
  "length (rows (concat_ignore_index a b)) = length (rows a) + length (rows b)"
  by (simp_all add: concat_ignore_index_def index_def Let_def)

lemma set_lib_index_single:
  "rows params = [(l, r)] \<Longrightarrow>
   rows (set_lib_index v params) = [(l, r(''lib_index'' \<mapsto> IntV v))]"
  by (simp add: set_lib_index_def)

lemma insert_all_appends:
  assumes "index (library_params lib) = map int [0..<length (slabs (library_spectra lib))]"
    and "dim1 (library_spectra lib) = 2" and "dim2 (library_spectra lib) = length (wav lib)"
    and "list_all (\<lambda>(params, s, u). set LIB_COLS \<subseteq> set (columns params)
                     \<and> length (rows params) = 1
                     \<and> length s = length (wav lib) \<and> length u = length (wav lib)) items"
  shows "\<exists>lib'. insert_all lib items = (Inr (), lib')
           \<and> wav lib' = wav lib
           \<and> slabs (library_spectra lib') =
               slabs (library_spectra lib) @ map (\<lambda>(params, s, u). [s, u]) items
           \<and> index (library_params lib') =
               map int [0..<length (slabs (library_spectra lib)) + length items]
           \<and> map (\<lambda>r. r ''lib_index'') (map snd (rows (library_params lib'))) =
               map (\<lambda>r. r ''lib_index'') (map snd (rows (library_params lib)))
               @ map (\<lambda>i. Some (IntV (int i)))
                   [length (slabs (library_spectra lib))
                    ..<length (slabs (library_spectra lib)) + length items]"
  using assms
proof (induction items arbitrary: lib)
  case Nil
  then show ?case
    by simp
next
  case (Cons x xs)
  obtain params s u where x: "x = (params, s, u)"
    by (cases x) auto
  let ?n = "length (slabs (library_spectra lib))"
  let ?lib1 = "lib\<lparr>library_params :=
                  concat_ignore_index (library_params lib) (set_lib_index (int ?n) params),
                library_spectra := (library_spectra lib)\<lparr>slabs := slabs (library_spectra lib)
                                                                  @ [[s, u]]\<rparr>\<rparr>"
  from Cons.prems(4) x
  have px: "set LIB_COLS \<subseteq> set (columns params)" "length (rows params) = 1"
    "length s = length (wav lib)" "length u = length (wav lib)"
    and rest: "list_all (\<lambda>(params, s, u). set LIB_COLS \<subseteq> set (columns params)
                     \<and> length (rows params) = 1
                     \<and> length s = length (wav ?lib1) \<and> length u = length (wav ?lib1)) xs"
    by simp_all
  obtain l r where lr: "rows params = [(l, r)]"
    using px(2) by (cases "rows params") auto
  have len: "length (rows (library_params lib)) = ?n"
    using arg_cong [OF Cons.prems(1), of length] by (simp add: index_def)
  have step: "Library_insert lib params s u = (Inr (), ?lib1)"
    using insert_ok [OF len Cons.prems(2,3) px(1,3,4)] .
  have inv1: "index (library_params ?lib1) = map int [0..<length (slabs (library_spectra ?lib1))]"
    using len lr
    by (simp add: concat_ignore_index_rows set_lib_index_single)
  have inv2: "dim1 (library_spectra ?lib1) = 2"
    "dim2 (library_spectra ?lib1) = length (wav ?lib1)"
    using Cons.prems(2,3) by simp_all
  from Cons.IH [OF inv1 inv2 rest]
  obtain lib' where ih: "insert_all ?lib1 xs = (Inr (), lib')"
    "wav lib' = wav ?lib1"
    "slabs (library_spectra lib') =
       slabs (library_spectra ?lib1) @ map (\<lambda>(params, s, u). [s, u]) xs"
    "index (library_params lib') =
       map int [0..<length (slabs (library_spectra ?lib1)) + length xs]"
    "map (\<lambda>r. r ''lib_index'') (map snd (rows (library_params lib'))) =
       map (\<lambda>r. r ''lib_index'') (map snd (rows (library_params ?lib1)))
       @ map (\<lambda>i. Some (IntV (int i)))
           [length (slabs (library_spectra ?lib1))
            ..<length (slabs (library_spectra ?lib1)) + length xs]"
    by blast
  have run: "insert_all lib (x # xs) = (Inr (), lib')"
    using step ih(1) x by simp
  have col1: "map (\<lambda>r. r ''lib_index'') (map snd (rows (library_params ?lib1))) =
                map (\<lambda>r. r ''lib_index'') (map snd (rows (library_params lib)))
                @ [Some (IntV (int ?n))]"
    using lr by (simp add: concat_ignore_index_rows set_lib_index_single)
  have upt: "[?n..<?n + length (x # xs)] = ?n # [Suc ?n..<Suc ?n + length xs]"
    using upt_conv_Cons [of ?n "?n + length (x # xs)"] by simp
  have a: "wav lib' = wav lib"
    using ih(2) by simp
  have b: "slabs (library_spectra lib') =
             slabs (library_spectra lib) @ map (\<lambda>(params, s, u). [s, u]) (x # xs)"
    using ih(3) x by simp
  have c: "index (library_params lib') = map int [0..<?n + length (x # xs)]"
    using ih(4) by simp
  have d: "map (\<lambda>r. r ''lib_index'') (map snd (rows (library_params lib'))) =
             map (\<lambda>r. r ''lib_index'') (map snd (rows (library_params lib)))
             @ map (\<lambda>i. Some (IntV (int i))) [?n..<?n + length (x # xs)]"
    unfolding upt ih(5) col1 by simp
  show ?case
    using run a b c d by blast
qed


text \<open>
  What \<open>insert\<close> does when nothing is wrong. For a library whose table and tensor have
  the same length \<open>N\<close> and whose tensor has shape \<open>(N, 2, W)\<close>, a frame of one row
  with all 19 required fields, and a spectrum and an uncertainty that both have the
  length of the axis, it sets the row's \<open>lib_index\<close> to \<open>N\<close>, appends the row as the
  last row of the table, the rows before it in their order and all relabelled
  \<open>0..N\<close>, and appends the pair as a new slab of the tensor. Hence \<open>k\<close> such inserts
  on an empty library succeed with indices \<open>0..k-1\<close> in order and length \<open>k\<close>.
\<close>

lemma insert_appends:
  "(length (rows (library_params (lib :: ('w, 'f, 'h) library))) = Library_len lib
      \<and> dim1 (library_spectra lib) = 2 \<and> dim2 (library_spectra lib) = length (wav lib)
      \<and> set LIB_COLS \<subseteq> set (columns params) \<and> rows params = [(l, r)]
      \<and> length spectrum = length (wav lib) \<and> length u_spectrum = length (wav lib)
    \<longrightarrow> (\<exists>lib'. Library_insert lib params spectrum u_spectrum = (Inr (), lib')
           \<and> map snd (rows (library_params lib')) =
               map snd (rows (library_params lib))
               @ [r(''lib_index'' \<mapsto> IntV (int (Library_len lib)))]
           \<and> index (library_params lib') = map int [0..<Library_len lib + 1]
           \<and> slabs (library_spectra lib') =
               slabs (library_spectra lib) @ [[spectrum, u_spectrum]]
           \<and> Library_len lib' = Library_len lib + 1))
   \<and> (list_all (\<lambda>(params, s, u). set LIB_COLS \<subseteq> set (columns params)
                   \<and> length (rows params) = 1
                   \<and> length s = length wv \<and> length u = length wv) items
    \<longrightarrow> (\<exists>lib'. insert_all (empty_Library today wv wl :: ('w, 'f, 'h) library) items
                   = (Inr (), lib')
           \<and> Library_len lib' = length items
           \<and> index (library_params lib') = map int [0..<length items]
           \<and> map (\<lambda>r. r ''lib_index'') (map snd (rows (library_params lib'))) =
               map (\<lambda>i. Some (IntV (int i))) [0..<length items]))"
proof (intro conjI impI)
  assume a: "length (rows (library_params lib)) = Library_len lib
      \<and> dim1 (library_spectra lib) = 2 \<and> dim2 (library_spectra lib) = length (wav lib)
      \<and> set LIB_COLS \<subseteq> set (columns params) \<and> rows params = [(l, r)]
      \<and> length spectrum = length (wav lib) \<and> length u_spectrum = length (wav lib)"
  then have "Library_insert lib params spectrum u_spectrum =
           (Inr (),
            lib\<lparr>library_params :=
                  concat_ignore_index (library_params lib)
                    (set_lib_index (int (length (slabs (library_spectra lib)))) params),
                library_spectra :=
                  (library_spectra lib)\<lparr>slabs := slabs (library_spectra lib)
                                                    @ [[spectrum, u_spectrum]]\<rparr>\<rparr>)"
    by (intro insert_ok) (simp_all add: Library_len_def)
  then show "\<exists>lib'. Library_insert lib params spectrum u_spectrum = (Inr (), lib')
           \<and> map snd (rows (library_params lib')) =
               map snd (rows (library_params lib))
               @ [r(''lib_index'' \<mapsto> IntV (int (Library_len lib)))]
           \<and> index (library_params lib') = map int [0..<Library_len lib + 1]
           \<and> slabs (library_spectra lib') =
               slabs (library_spectra lib) @ [[spectrum, u_spectrum]]
           \<and> Library_len lib' = Library_len lib + 1"
    using a by (simp add: concat_ignore_index_rows set_lib_index_single Library_len_def)
next
  let ?E = "empty_Library today wv wl :: ('w, 'f, 'h) library"
  assume "list_all (\<lambda>(params, s, u). set LIB_COLS \<subseteq> set (columns params)
                   \<and> length (rows params) = 1
                   \<and> length s = length wv \<and> length u = length wv) items"
  then have items: "list_all (\<lambda>(params, s, u). set LIB_COLS \<subseteq> set (columns params)
                   \<and> length (rows params) = 1
                   \<and> length s = length (wav ?E) \<and> length u = length (wav ?E)) items"
    by (simp add: empty_Library_def)
  have e: "index (library_params ?E) = map int [0..<length (slabs (library_spectra ?E))]"
    "dim1 (library_spectra ?E) = 2" "dim2 (library_spectra ?E) = length (wav ?E)"
    by (simp_all add: empty_Library_def index_def)
  from insert_all_appends [OF e items]
  show "\<exists>lib'. insert_all ?E items = (Inr (), lib')
           \<and> Library_len lib' = length items
           \<and> index (library_params lib') = map int [0..<length items]
           \<and> map (\<lambda>r. r ''lib_index'') (map snd (rows (library_params lib'))) =
               map (\<lambda>i. Some (IntV (int i))) [0..<length items]"
    by (auto simp: empty_Library_def Library_len_def)
qed


lemma insert_appends_example:
  "(\<exists>lib'. Library_insert (stars 1 [10, 20]) \<lparr>columns = LIB_COLS, rows = [(7, Map.empty)]\<rparr>
             [3, 4] [5, 6] = (Inr (), lib')
      \<and> map snd (rows (library_params lib')) =
           [Map.empty, [''lib_index'' \<mapsto> IntV 1]]
      \<and> index (library_params lib') = [0, 1]
      \<and> slabs (library_spectra lib') = [[[1, 1], [0, 0]], [[3, 4], [5, 6]]]
      \<and> Library_len lib' = 2)
   \<and> (\<exists>lib'. insert_all (empty_Library ''2016-07-01'' [10, 20::int] None)
               [(\<lparr>columns = LIB_COLS, rows = [(7, Map.empty)]\<rparr>, [3, 4::int], [5, 6]),
                (\<lparr>columns = LIB_COLS, rows = [(7, Map.empty)]\<rparr>, [1, 2], [0, 0])]
             = (Inr (), lib')
      \<and> Library_len lib' = 2
      \<and> index (library_params lib') = [0, 1]
      \<and> map (\<lambda>r. r ''lib_index'') (map snd (rows (library_params lib'))) =
           [Some (IntV 0), Some (IntV 1)])"
proof -
  have u2: "[0..<2] = [0, Suc 0]"
    by (simp add: upt_rec)
  have "\<exists>lib'. Library_insert (stars 1 [10, 20]) \<lparr>columns = LIB_COLS, rows = [(7, Map.empty)]\<rparr>
             [3, 4] [5, 6] = (Inr (), lib')
      \<and> map snd (rows (library_params lib')) =
           [Map.empty, [''lib_index'' \<mapsto> IntV 1]]
      \<and> index (library_params lib') = [0, 1]
      \<and> slabs (library_spectra lib') = [[[1, 1], [0, 0]], [[3, 4], [5, 6]]]
      \<and> Library_len lib' = 2"
    using insert_appends [THEN conjunct1, of "stars 1 [10, 20]"
        "\<lparr>columns = LIB_COLS, rows = [(7, Map.empty)]\<rparr>" 7 Map.empty "[3, 4]" "[5, 6]"]
    by (auto simp: stars_def Library_len_def u2)
  moreover
  have "\<exists>lib'. insert_all (empty_Library ''2016-07-01'' [10, 20::int] None)
               [(\<lparr>columns = LIB_COLS, rows = [(7, Map.empty)]\<rparr>, [3, 4::int], [5, 6]),
                (\<lparr>columns = LIB_COLS, rows = [(7, Map.empty)]\<rparr>, [1, 2], [0, 0])]
             = (Inr (), lib')
      \<and> Library_len lib' = 2
      \<and> index (library_params lib') = [0, 1]
      \<and> map (\<lambda>r. r ''lib_index'') (map snd (rows (library_params lib'))) =
           [Some (IntV 0), Some (IntV 1)]"
    using insert_appends [THEN conjunct2, of "[10, 20::int]"
        "[(\<lparr>columns = LIB_COLS, rows = [(7, Map.empty)]\<rparr>, [3, 4::int], [5, 6]),
          (\<lparr>columns = LIB_COLS, rows = [(7, Map.empty)]\<rparr>, [1, 2], [0, 0])]"
        "''2016-07-01''" None]
    by (auto simp: u2)
  ultimately show ?thesis by blast
qed

text \<open>
  C3. The claim is that \<open>insert\<close> appends the row and the (spectrum, uncertainty) pair
  for every row with all 19 required fields and a spectrum of axis length. The source
  asserts the length of the spectrum and not that of the uncertainty. Here an empty
  library on an axis of one sample is given a row with all fields, a spectrum of length
  1 and an uncertainty of length 2: the row is appended to the table, then
  \<open>np.vstack\<close> raises ValueError, and the library is left with one row and no slab.
\<close>

theorem insert_ragged_pair_ValueError:
  "set LIB_COLS \<subseteq> set (columns \<lparr>columns = LIB_COLS, rows = [(0, Map.empty :: int series)]\<rparr>)
   \<and> length [1::int] = length (wav (empty_Library ''2016-07-01'' [5::int] None
                                      :: (int, int, string) library))
   \<and> fst (Library_insert (empty_Library ''2016-07-01'' [5::int] None)
            \<lparr>columns = LIB_COLS, rows = [(0, Map.empty)]\<rparr> [1::int] [1, 2]) = Inl ValueError
   \<and> length (rows (library_params
        (snd (Library_insert (empty_Library ''2016-07-01'' [5::int] None)
               \<lparr>columns = LIB_COLS, rows = [(0, Map.empty)]\<rparr> [1::int] [1, 2])))) = 1
   \<and> Library_len
        (snd (Library_insert (empty_Library ''2016-07-01'' [5::int] None)
               \<lparr>columns = LIB_COLS, rows = [(0, Map.empty)]\<rparr> [1::int] [1, 2])) = 0"
  by (simp add: Library_insert_def require_cols_subset empty_Library_def vstack_def Let_def
        concat_ignore_index_rows set_lib_index_def Library_len_def)


text \<open>
  C7. Each violation of a precondition of \<open>insert\<close> (table and tensor of different
  lengths, a required field missing from the row, a spectrum whose length is not the
  length of the axis) raises an AssertionError with the message of the first check that
  fails, in the order of the source, and leaves the library as it was: neither the table
  nor the tensor is changed.
\<close>

theorem insert_violation_rejected:
  assumes "length (rows (library_params lib)) \<noteq> length (slabs (library_spectra lib))
           \<or> \<not> set LIB_COLS \<subseteq> set (columns params)
           \<or> length spectrum \<noteq> length (wav lib)"
  shows "Library_insert lib params spectrum u_spectrum =
           (Inl (AssertionError
              (if length (rows (library_params lib)) \<noteq> length (slabs (library_spectra lib))
               then Lengths_not_equal
               else case find (\<lambda>c. c \<notin> set (columns params)) LIB_COLS of
                      Some c \<Rightarrow> Required_in_specification c
                    | None \<Rightarrow> Spectrum_wrong_length)), lib)"
proof (cases "find (\<lambda>c. c \<notin> set (columns params)) LIB_COLS")
  case None
  then have "set LIB_COLS \<subseteq> set (columns params)"
    by (auto simp: find_None_iff)
  with assms None show ?thesis
    by (auto simp: Library_insert_def require_cols_find)
next
  case (Some c)
  then show ?thesis
    by (simp add: Library_insert_def require_cols_find)
qed

theorem insert_violation_rejected_witness:
  "Library_insert
     ((stars 1 [10, 20])\<lparr>library_spectra := \<lparr>dim1 = 2, dim2 = 2, itemsize = 8, slabs = []\<rparr>\<rparr>)
     \<lparr>columns = LIB_COLS, rows = [(0, Map.empty)]\<rparr> [3, 4] [5, 6]
   = (Inl (AssertionError Lengths_not_equal),
      (stars 1 [10, 20])\<lparr>library_spectra := \<lparr>dim1 = 2, dim2 = 2, itemsize = 8, slabs = []\<rparr>\<rparr>)
   \<and> Library_insert (stars 1 [10, 20])
        \<lparr>columns = [''lib_index'', ''obs''], rows = [(0, Map.empty)]\<rparr> [3, 4] [5, 6]
     = (Inl (AssertionError (Required_in_specification ''cps_name'')), stars 1 [10, 20])
   \<and> Library_insert (stars 1 [10, 20])
        \<lparr>columns = LIB_COLS, rows = [(0, Map.empty)]\<rparr> [3, 4, 5] [5, 6]
     = (Inl (AssertionError Spectrum_wrong_length), stars 1 [10, 20])"
proof -
  have none: "find (\<lambda>c. c \<notin> set LIB_COLS) LIB_COLS = None"
    by (simp add: find_None_iff)
  have some: "find (\<lambda>c. c \<notin> set [''lib_index'', ''obs'']) LIB_COLS = Some ''cps_name''"
    by (simp add: LIB_COLS_def)
  have a: "Library_insert
     ((stars 1 [10, 20])\<lparr>library_spectra := \<lparr>dim1 = 2, dim2 = 2, itemsize = 8, slabs = []\<rparr>\<rparr>)
     \<lparr>columns = LIB_COLS, rows = [(0, Map.empty)]\<rparr> [3, 4] [5, 6]
   = (Inl (AssertionError Lengths_not_equal),
      (stars 1 [10, 20])\<lparr>library_spectra := \<lparr>dim1 = 2, dim2 = 2, itemsize = 8, slabs = []\<rparr>\<rparr>)"
    using insert_violation_rejected [of
        "(stars 1 [10, 20])\<lparr>library_spectra :=
                               \<lparr>dim1 = 2, dim2 = 2, itemsize = 8, slabs = []\<rparr>\<rparr>"
        "\<lparr>columns = LIB_COLS, rows = [(0, Map.empty)]\<rparr>" "[3, 4]" "[5, 6]"]
    by (simp add: stars_def)
  have b: "Library_insert (stars 1 [10, 20])
        \<lparr>columns = [''lib_index'', ''obs''], rows = [(0, Map.empty)]\<rparr> [3, 4] [5, 6]
     = (Inl (AssertionError (Required_in_specification ''cps_name'')), stars 1 [10, 20])"
    using insert_violation_rejected [of "stars 1 [10, 20]"
        "\<lparr>columns = [''lib_index'', ''obs''], rows = [(0, Map.empty)]\<rparr>" "[3, 4]" "[5, 6]"]
      some
    by (simp add: stars_def LIB_COLS_def)
  have c: "Library_insert (stars 1 [10, 20])
        \<lparr>columns = LIB_COLS, rows = [(0, Map.empty)]\<rparr> [3, 4, 5] [5, 6]
     = (Inl (AssertionError Spectrum_wrong_length), stars 1 [10, 20])"
    using insert_violation_rejected [of "stars 1 [10, 20]"
        "\<lparr>columns = LIB_COLS, rows = [(0, Map.empty)]\<rparr>" "[3, 4, 5]" "[5, 6]"]
    by (simp add: stars_def none)
  show ?thesis
    using a b c by blast
qed

subsection \<open>Saving an empty library\<close>

text \<open>
  C10 (amended). For a library with no entry (no slab in the tensor and no row in the
  table), \<open>to_hdf\<close> never completes: pandas stores no node for the table, and computing
  the chunk column count raises ZeroDivisionError when the tensor has at least one
  wavelength column (the slab \<open>[:,:,0]\<close> has zero bytes), and IndexError when it has
  none (the slab \<open>[:,:,0]\<close> does not exist).
\<close>

theorem to_hdf_empty_fails:
  assumes "Library_len lib = 0" and "rows (library_params lib) = []"
  shows "fst (Library_to_hdf serializable lib paramfile specfile fs) =
           Inl (if dim2 (library_spectra lib) = 0 then IndexError else ZeroDivisionError)"
  using assms
  by (simp add: Library_to_hdf_def pd_to_hdf_def empty_frame_def Library_len_def Let_def)

theorem to_hdf_empty_fails_witness:
  "Library_len (empty_Library ''2016-07-01'' [10, 20::int] None :: (int, int, string) library) = 0
   \<and> rows (library_params (empty_Library ''2016-07-01'' [10, 20::int] None
                               :: (int, int, string) library)) = []
   \<and> fst (Library_to_hdf (\<lambda>df. True)
            (empty_Library ''2016-07-01'' [10, 20::int] None :: (int, int, string) library)
            ''params.h5'' ''spectra.h5'' Map.empty) = Inl ZeroDivisionError"
  using to_hdf_empty_fails [of "empty_Library ''2016-07-01'' [10, 20::int] None
                                  :: (int, int, string) library"
      "\<lambda>df. True" "''params.h5''" "''spectra.h5''" Map.empty]
  by (simp add: empty_Library_def Library_len_def)

text \<open>
  C10 as stated fails for the empty library over an empty axis: the error is IndexError,
  not a division by zero.
\<close>

theorem to_hdf_empty_axis_counterexample:
  "Library_len (empty_Library ''2016-07-01'' ([] :: int list) None
                  :: (int, int, string) library) = 0
   \<and> fst (Library_to_hdf (\<lambda>df. True)
            (empty_Library ''2016-07-01'' ([] :: int list) None :: (int, int, string) library)
            ''params.h5'' ''spectra.h5'' Map.empty) = Inl IndexError
   \<and> fst (Library_to_hdf (\<lambda>df. True)
            (empty_Library ''2016-07-01'' ([] :: int list) None :: (int, int, string) library)
            ''params.h5'' ''spectra.h5'' Map.empty) \<noteq> Inl ZeroDivisionError"
  by (simp add: Library_to_hdf_def pd_to_hdf_def empty_frame_def empty_Library_def
        Library_len_def Let_def)


subsection \<open>Loading a wavelength window\<close>

lemma read_hdf_window_raises:
  assumes "fst (Library_to_hdf serializable lib p s fs) = Inr ()" and "p \<noteq> s"
    and "\<not> empty_frame (library_params lib)"
    and "\<exists>v \<in> set (wav lib). lo < v \<and> v < hi"
  shows "read_hdf today (snd (Library_to_hdf serializable lib p s fs)) p s (Some (lo, hi))
           = Inl (NameError ''h5'')"
proof -
  have "np_where (\<lambda>v. lo < v \<and> v < hi) (wav lib) \<noteq> []"
    using assms(4) by (simp add: np_where_Nil)
  then show ?thesis
    using to_hdf_written [OF assms(1,2)] assms(3)
    by (simp add: read_hdf_def empty_hdf_def Let_def)
qed

text \<open>
  C1. The claim is that loading with limits \<open>(lo, hi)\<close> that hold at least one sample of
  the axis returns the library cut to the window. The source does not: the statement that
  reads the slice names \<open>h5\<close>, which is bound nowhere, so every such load raises
  NameError. Here a library of 6250 stars on the axis 10, 20, 30 is saved and loaded with
  the limits (10, 40).
\<close>

theorem load_window_NameError:
  "fst (Library_to_hdf (\<lambda>df. True) (stars 6250 [10, 20, 30]) ''params.h5'' ''spectra.h5''
          Map.empty) = Inr ()
   \<and> read_hdf ''2016-07-02''
        (snd (Library_to_hdf (\<lambda>df. True) (stars 6250 [10, 20, 30]) ''params.h5''
                ''spectra.h5'' Map.empty))
        ''params.h5'' ''spectra.h5'' (Some (10, 40)) = Inl (NameError ''h5'')"
proof -
  have ok: "fst (Library_to_hdf (\<lambda>df. True) (stars 6250 [10, 20, 30]) ''params.h5''
                   ''spectra.h5'' Map.empty) = Inr ()"
    by (rule to_hdf_succeeds) (simp_all add: stars_def)
  have ne: "\<not> empty_frame (library_params (stars 6250 [10, 20, 30]))"
    by (simp add: empty_frame_def stars_def LIB_COLS_def)
  have "\<exists>v \<in> set (wav (stars 6250 [10, 20, 30])). 10 < v \<and> v < 40"
    by (simp add: stars_def)
  then show ?thesis
    using ok read_hdf_window_raises [OF ok _ ne, of 10 40 "''2016-07-02''"] by simp
qed

subsection \<open>Round trip\<close>

text \<open>
  When the save goes through, on two different paths, and the library passes the checks
  of the constructor, loading without limits gives the library back, with the header
  stamped anew and no limits.
\<close>

lemma save_load_roundtrip:
  assumes "fst (Library_to_hdf serializable lib p s fs) = Inr ()" and "p \<noteq> s"
    and "set LIB_COLS \<subseteq> set (columns (library_params lib))"
    and "length (rows (library_params lib)) = length (slabs (library_spectra lib))"
    and "\<forall>i \<in> set (index (library_params lib)). i < int (length (slabs (library_spectra lib)))"
    and "dim1 (library_spectra lib) = 2"
    and "dim2 (library_spectra lib) = length (wav lib)"
  shows "read_hdf today (snd (Library_to_hdf serializable lib p s fs)) p s None =
           Inr (lib\<lparr>header := (header lib)(''date_created'' \<mapsto> today), wavlim := None\<rparr>)"
proof -
  have c: "require_cols Required_in_table (columns (library_params lib)) LIB_COLS = None"
    using assms(3) by (simp add: require_cols_None)
  have i: "check_indices (length (slabs (library_spectra lib))) (rows (library_params lib)) = None"
    using assms(5) by (simp add: check_indices_None index_def)
  have ne: "\<not> empty_frame (library_params lib)"
    using saved_table_not_empty [OF assms(1,4,3)] .
  show ?thesis
    using to_hdf_written [OF assms(1,2)] c i ne assms(4,6,7)
    by (simp add: read_hdf_def empty_hdf_def Library_init_def)
qed

text \<open>
  C2. The claim is that saving any library with at least one entry and loading it again
  gives the same library. The source computes the chunk column count as the integer
  quotient of 100000 and the byte size of one wavelength column, without a bound: for one
  star of 8-byte values it is 6250, more than the three samples of this axis, so
  \<open>create_dataset\<close> raises ValueError, the spectrum file is left without the dataset
  \<open>library_spectra\<close>, and loading raises KeyError.
\<close>

theorem save_small_library_ValueError:
  "Library_init ''2016-07-01'' [10, 20, 30::int]
     (Some (library_spectra (stars 1 [10, 20, 30])))
     (Some (library_params (stars 1 [10, 20, 30]))) Map.empty None
     = Inr (stars 1 [10, 20, 30])
   \<and> fst (Library_to_hdf (\<lambda>df. True) (stars 1 [10, 20, 30]) ''params.h5'' ''spectra.h5''
            Map.empty) = Inl ValueError
   \<and> read_hdf ''2016-07-02''
        (snd (Library_to_hdf (\<lambda>df. True) (stars 1 [10, 20, 30]) ''params.h5'' ''spectra.h5''
                Map.empty))
        ''params.h5'' ''spectra.h5'' None = Inl KeyError"
proof -
  have a: "Library_init ''2016-07-01'' [10, 20, 30::int]
     (Some (library_spectra (stars 1 [10, 20, 30])))
     (Some (library_params (stars 1 [10, 20, 30]))) Map.empty None
     = Inr (stars 1 [10, 20, 30])"
    by (simp add: Library_init_def stars_def require_cols_subset)
  have b: "Library_to_hdf (\<lambda>df. True) (stars 1 [10, 20, 30]) ''params.h5'' ''spectra.h5''
             Map.empty
       = (Inl ValueError,
          [''params.h5'' \<mapsto> empty_hdf\<lparr>table := Some (library_params (stars 1 [10, 20, 30]))\<rparr>,
           ''spectra.h5'' \<mapsto> empty_hdf\<lparr>attrs := header (stars 1 [10, 20, 30]),
                                            wav_ds := Some [10, 20, 30]\<rparr>])"
    by (simp add: Library_to_hdf_def pd_to_hdf_def empty_frame_def LIB_COLS_def stars_def
          create_dataset_def Let_def)
  show ?thesis
    unfolding b using a by (simp add: read_hdf_def empty_hdf_def)
qed

subsection \<open>The checks of the constructor\<close>

text \<open>The outcome of the full path by the first check that fails, in the source's order.\<close>

lemma init_outcome:
  "Library_init today wv (Some sp) (Some ps) hdr wl =
     (case find (\<lambda>c. c \<notin> set (columns ps)) LIB_COLS of
        Some c \<Rightarrow> Inl (AssertionError (Required_in_table c))
      | None \<Rightarrow>
         if length (rows ps) \<noteq> length (slabs sp) then Inl (AssertionError Lengths_not_equal)
         else (case find (\<lambda>i. \<not> i < int (length (slabs sp))) (index ps) of
                 Some i \<Rightarrow> Inl (AssertionError (Index_out_of_bounds i))
               | None \<Rightarrow>
                  if dim1 sp = 2 \<and> dim2 sp = length wv
                  then Inr \<lparr>library_params = ps, wav = wv, library_spectra = sp,
                            header = hdr(''date_created'' \<mapsto> today), wavlim = wl\<rparr>
                  else Inl (AssertionError
                              (Should_have_shape (length (slabs sp)) (length wv)))))"
  by (auto simp: Library_init_def require_cols_find check_indices_find index_def Let_def
           split: option.splits)

text \<open>
  C5. The claim is that construction fails with an AssertionError when a row's index lies
  outside \<open>[0, N)\<close>. The source asserts \<open>i < num_spec\<close> only, so a table of one row
  labelled \<open>-2\<close> with a tensor of one slab is accepted, although position \<open>-2\<close> does
  not exist in a tensor of length 1.
\<close>

theorem init_negative_index_accepted:
  "Library_init ''2016-07-01'' [5::int]
     (Some \<lparr>dim1 = 2, dim2 = 1, itemsize = 8, slabs = [[[1::int], [2]]]\<rparr>)
     (Some \<lparr>columns = LIB_COLS, rows = [(- 2, Map.empty)]\<rparr>) Map.empty None
   = Inr \<lparr>library_params = \<lparr>columns = LIB_COLS, rows = [(- 2, Map.empty)]\<rparr>, wav = [5],
          library_spectra = \<lparr>dim1 = 2, dim2 = 1, itemsize = 8, slabs = [[[1], [2]]]\<rparr>,
          header = [''date_created'' \<mapsto> ''2016-07-01''], wavlim = None\<rparr>"
  by (simp add: Library_init_def require_cols_subset)

subsection \<open>Lookup and membership\<close>

lemma getitem_outcome:
  "Library_getitem lib i =
     Inl (if Library_contains lib i then AttributeError ''loc'' else KeyError)"
  by (simp add: Library_getitem_def)

lemma contains_iff_label: "Library_contains lib i = (i \<in> set (index (library_params lib)))"
  by (simp add: Library_contains_def)

lemma contains_append_built:
  assumes "list_all (\<lambda>(params, s, u). set LIB_COLS \<subseteq> set (columns params)
                       \<and> length (rows params) = 1
                       \<and> length s = length wv \<and> length u = length wv) items"
    and "insert_all (empty_Library today wv wl :: ('w, 'f, 'h) library) items = (res, lib')"
  shows "Library_contains lib' i = (0 \<le> i \<and> i < int (length items))"
proof -
  let ?E = "empty_Library today wv wl :: ('w, 'f, 'h) library"
  have items: "list_all (\<lambda>(params, s, u). set LIB_COLS \<subseteq> set (columns params)
                   \<and> length (rows params) = 1
                   \<and> length s = length (wav ?E) \<and> length u = length (wav ?E)) items"
    using assms(1) by (simp add: empty_Library_def)
  have e: "index (library_params ?E) = map int [0..<length (slabs (library_spectra ?E))]"
    "dim1 (library_spectra ?E) = 2" "dim2 (library_spectra ?E) = length (wav ?E)"
    by (simp_all add: empty_Library_def index_def)
  from insert_all_appends [OF e items] assms(2)
  have "index (library_params lib') = map int [0..<length items]"
    by (auto simp: empty_Library_def)
  then have "set (index (library_params lib')) = int ` {0..<length items}"
    by simp
  moreover have "(i \<in> int ` {0..<length items}) = (0 \<le> i \<and> i < int (length items))"
  proof
    assume "i \<in> int ` {0..<length items}"
    then show "0 \<le> i \<and> i < int (length items)" by auto
  next
    assume "0 \<le> i \<and> i < int (length items)"
    then have "i = int (nat i)" and "nat i \<in> {0..<length items}" by auto
    then show "i \<in> int ` {0..<length items}" by (rule image_eqI)
  qed
  ultimately show ?thesis
    by (simp add: Library_contains_def)
qed

text \<open>
  C6. The claim is that \<open>library[index]\<close> returns the row and the spectrum pair of an
  index that is present. The source reads \<open>.loc\<close> of the numpy tensor, so the lookup of
  a present index raises AttributeError; only an absent index behaves as claimed
  (KeyError).
\<close>

theorem getitem_present_AttributeError:
  "Library_contains (stars 1 [10, 20]) 0
   \<and> Library_getitem (stars 1 [10, 20]) 0 = Inl (AttributeError ''loc'')
   \<and> Library_getitem (stars 1 [10, 20]) 1 = Inl KeyError"
  by (simp add: Library_getitem_def Library_contains_def index_def stars_def)


end
